theory Spec2Isabelle
  imports Main "HOL-Library.Word"
begin

unbundle bit_operations_syntax

section \<open>The operating system as seen from \<^verbatim>\<open>disk_util.hpp\<close>\<close>

text \<open>
  \<^verbatim>\<open>disk_util.hpp\<close> is a thin client of the operating system: every function in
  it is a short sequence of system calls whose return values decide the control flow.
  The system calls themselves are not code of the repository, so they are parameters of
  the model: a record \<open>'w os\<close> of functions over an arbitrary type \<open>'w\<close> of
  states of the outside world. Every call takes the world and gives back the value the C
  function returns together with the next world; \<^verbatim>\<open>errno\<close> is read from the
  world. Nothing is assumed about these functions, so a theorem about the model holds for
  every behaviour of the operating system.
\<close>

datatype open_flag = O_RDONLY | O_NOCTTY

datatype flock_flag = LOCK_EX | LOCK_NB | LOCK_UN

record 'w os =
  os_stat :: "string \<Rightarrow> 'w \<Rightarrow> (int \<times> 64 word) \<times> 'w"
    \<comment> \<open>\<^verbatim>\<open>stat(path, &s)\<close>: the return value and \<^verbatim>\<open>s.st_dev\<close>\<close>
  os_major :: "64 word \<Rightarrow> 32 word"
    \<comment> \<open>\<^verbatim>\<open>major(dev)\<close> of \<^verbatim>\<open>sys/sysmacros.h\<close>\<close>
  os_minor :: "64 word \<Rightarrow> 32 word"
    \<comment> \<open>\<^verbatim>\<open>minor(dev)\<close> of \<^verbatim>\<open>sys/sysmacros.h\<close>\<close>
  os_realpath :: "string \<Rightarrow> 'w \<Rightarrow> string option \<times> 'w"
    \<comment> \<open>\<^verbatim>\<open>realpath(path, nullptr)\<close>: \<open>None\<close> is the null pointer\<close>
  os_ifstream_open :: "string \<Rightarrow> 'w \<Rightarrow> string option \<times> 'w"
    \<comment> \<open>\<^verbatim>\<open>std::ifstream::open\<close>: \<open>None\<close> when \<^verbatim>\<open>fail()\<close> holds afterwards,
        otherwise the characters the stream delivers\<close>
  os_open :: "string \<Rightarrow> open_flag list \<Rightarrow> 'w \<Rightarrow> int \<times> 'w"
    \<comment> \<open>\<^verbatim>\<open>open(path, flags)\<close>, the flags joined by \<^verbatim>\<open>|\<close>\<close>
  os_flock :: "int \<Rightarrow> flock_flag list \<Rightarrow> 'w \<Rightarrow> int \<times> 'w"
    \<comment> \<open>\<^verbatim>\<open>flock(fd, operation)\<close>, the flags joined by \<^verbatim>\<open>|\<close>\<close>
  os_close :: "int \<Rightarrow> 'w \<Rightarrow> int \<times> 'w"
    \<comment> \<open>\<^verbatim>\<open>close(fd)\<close>\<close>
  os_sleep :: "nat \<Rightarrow> 'w \<Rightarrow> 'w"
    \<comment> \<open>the world after the calling thread has slept for so many seconds\<close>
  os_errno :: "'w \<Rightarrow> int"
    \<comment> \<open>\<^verbatim>\<open>errno\<close>\<close>
  os_strerror :: "int \<Rightarrow> string"
    \<comment> \<open>\<^verbatim>\<open>strerror(e)\<close>\<close>
  os_EWOULDBLOCK :: int
    \<comment> \<open>the constant \<^verbatim>\<open>EWOULDBLOCK\<close>\<close>

text \<open>
  What the process does to the outside is recorded as a trace of events, in the order in
  which they happen: every system call with its arguments and its return value, every
  line written to \<^verbatim>\<open>std::cout\<close> or \<^verbatim>\<open>std::cerr\<close>, every sleep. The trace is
  never read by the program; it is what the theorems observe.
\<close>

datatype event =
    EvStat string int
  | EvRealpath string "string option"
  | EvIfstreamOpen string bool
  | EvOpen string "open_flag list" int
  | EvFlock int "flock_flag list" int
  | EvClose int int
  | EvSleep nat
  | EvCout string
  | EvCerr string

record 'w proc =
  world :: 'w
  trace :: "event list"

definition emit :: "event \<Rightarrow> 'w \<Rightarrow> 'w proc \<Rightarrow> 'w proc" where
  "emit e w p = \<lparr>world = w, trace = trace p @ [e]\<rparr>"

definition sys_stat :: "'w os \<Rightarrow> string \<Rightarrow> 'w proc \<Rightarrow> (int \<times> 64 word) \<times> 'w proc" where
  "sys_stat os path p =
     (case os_stat os path (world p) of
        ((rc, st_dev), w) \<Rightarrow> ((rc, st_dev), emit (EvStat path rc) w p))"

definition sys_realpath :: "'w os \<Rightarrow> string \<Rightarrow> 'w proc \<Rightarrow> string option \<times> 'w proc" where
  "sys_realpath os path p =
     (case os_realpath os path (world p) of
        (resolved, w) \<Rightarrow> (resolved, emit (EvRealpath path resolved) w p))"

definition sys_ifstream_open :: "'w os \<Rightarrow> string \<Rightarrow> 'w proc \<Rightarrow> string option \<times> 'w proc" where
  "sys_ifstream_open os path p =
     (case os_ifstream_open os path (world p) of
        (file, w) \<Rightarrow> (file, emit (EvIfstreamOpen path (file \<noteq> None)) w p))"

definition sys_open :: "'w os \<Rightarrow> string \<Rightarrow> open_flag list \<Rightarrow> 'w proc \<Rightarrow> int \<times> 'w proc" where
  "sys_open os path flags p =
     (case os_open os path flags (world p) of
        (rc, w) \<Rightarrow> (rc, emit (EvOpen path flags rc) w p))"

definition sys_flock :: "'w os \<Rightarrow> int \<Rightarrow> flock_flag list \<Rightarrow> 'w proc \<Rightarrow> int \<times> 'w proc" where
  "sys_flock os fd operation p =
     (case os_flock os fd operation (world p) of
        (rc, w) \<Rightarrow> (rc, emit (EvFlock fd operation rc) w p))"

definition sys_close :: "'w os \<Rightarrow> int \<Rightarrow> 'w proc \<Rightarrow> int \<times> 'w proc" where
  "sys_close os fd p =
     (case os_close os fd (world p) of
        (rc, w) \<Rightarrow> (rc, emit (EvClose fd rc) w p))"

definition cout :: "string \<Rightarrow> 'w proc \<Rightarrow> 'w proc" where
  "cout s p = emit (EvCout s) (world p) p"

definition cerr :: "string \<Rightarrow> 'w proc \<Rightarrow> 'w proc" where
  "cerr s p = emit (EvCerr s) (world p) p"

definition strerror_errno :: "'w os \<Rightarrow> 'w proc \<Rightarrow> string" where
  \<comment> \<open>\<^verbatim>\<open>strerror(errno)\<close>\<close>
  "strerror_errno os p = os_strerror os (os_errno os (world p))"

definition endl :: string where
  \<comment> \<open>\<^verbatim>\<open>std::endl\<close> writes a newline (and flushes)\<close>
  "endl = [CHR 0x0A]"

subsection \<open>Strings of C and of C++\<close>

text \<open>
  A \<^verbatim>\<open>std::string\<close> is a sequence of bytes of any value; the C string that
  \<^verbatim>\<open>c_str()\<close> hands to a system call ends at the first NUL byte, and a
  \<^verbatim>\<open>std::string\<close> built from a \<^verbatim>\<open>char *\<close> holds the bytes before the first NUL.
\<close>

definition c_str :: "string \<Rightarrow> string" where
  "c_str s = takeWhile (\<lambda>c. c \<noteq> CHR 0x00) s"

definition digit_char :: "nat \<Rightarrow> char" where
  "digit_char d = ''0123456789'' ! d"

text \<open>\<^verbatim>\<open>os << n\<close> for an unsigned integer: its decimal digits, no leading zero.\<close>

fun show_nat :: "nat \<Rightarrow> string" where
  "show_nat n =
     (if n < 10 then [digit_char n] else show_nat (n div 10) @ [digit_char (n mod 10)])"

declare show_nat.simps [simp del]

definition getline :: "string \<Rightarrow> string" where
  \<comment> \<open>\<^verbatim>\<open>std::getline(file, line)\<close> on a stream that delivers the given characters: the
      characters before the first newline, all of them when there is none\<close>
  "getline content = takeWhile (\<lambda>c. c \<noteq> CHR 0x0A) content"

section \<open>Namespace \<^verbatim>\<open>DiskUtil\<close>\<close>

datatype exn = runtime_error string

text \<open>
  A \<^verbatim>\<open>throw std::runtime_error(msg)\<close> is the result \<open>Inl (runtime_error msg)\<close>;
  a \<^verbatim>\<open>return v\<close> is \<open>Inr v\<close>. The \<^verbatim>\<open>memset\<close> of the \<^verbatim>\<open>stat\<close> buffer, the
  \<^verbatim>\<open>free\<close> of the resolved path and the \<^verbatim>\<open>close\<close> of the input stream change
  nothing that the functions return or that is observed, and have no counterpart here.
\<close>

definition DeviceNameOfDirectory :: "'w os \<Rightarrow> string \<Rightarrow> 'w proc \<Rightarrow> (exn + string) \<times> 'w proc" where
  "DeviceNameOfDirectory os dir p =
     (case sys_stat os (c_str dir) p of
        ((rc, st_dev), p1) \<Rightarrow>
          if 0 \<noteq> rc then
            (Inl (runtime_error (''Unable to find device name for dir '' @ dir @ '': ''
                                  @ strerror_errno os p1)), p1)
          else
            let block = ''/sys/dev/block/'' @ show_nat (unat (os_major os st_dev)) @ '':''
                          @ show_nat (unat (os_minor os st_dev))
            in (case sys_realpath os (c_str block) p1 of
                  (None, p2) \<Rightarrow>
                    (Inl (runtime_error (''Unable to find device name for '' @ block @ '': ''
                                          @ strerror_errno os p2)), p2)
                | (Some resolved, p2) \<Rightarrow> (Inr (c_str resolved), p2)))"

definition IsParallelWritingPreferredForDevice ::
  "'w os \<Rightarrow> string \<Rightarrow> 'w proc \<Rightarrow> (exn + bool) \<times> 'w proc" where
  "IsParallelWritingPreferredForDevice os dev p =
     (let filename = ''/sys/block/'' @ dev @ ''/queue/rotational'' in
      case sys_ifstream_open os (c_str filename) p of
        (None, p1) \<Rightarrow>
          (Inl (runtime_error (''Unable to open '' @ filename @ '' for reading: ''
                                @ strerror_errno os p1)), p1)
      | (Some content, p1) \<Rightarrow>
          let line = getline content;
              is_rotational = (if line \<noteq> [] \<and> hd line = CHR ''0'' then 0 else 1 :: int)
          in (Inr (is_rotational = 0), p1))"

text \<open>
  \<^verbatim>\<open>ShouldLock\<close> is compiled to \<^verbatim>\<open>return false\<close> when \<^verbatim>\<open>__APPLE__\<close> or
  \<^verbatim>\<open>_WIN32\<close> is defined; the platform is a parameter here.
\<close>

datatype platform = Linux | Apple | Win32

definition ShouldLock :: "platform \<Rightarrow> 'w os \<Rightarrow> string \<Rightarrow> 'w proc \<Rightarrow> (exn + bool) \<times> 'w proc" where
  "ShouldLock plat os dir p =
     (if plat = Apple \<or> plat = Win32 then (Inr False, p)
      else
        case DeviceNameOfDirectory os dir p of
          (Inl e, p1) \<Rightarrow> (Inl e, p1)
        | (Inr device_name, p1) \<Rightarrow>
            (case IsParallelWritingPreferredForDevice os (c_str device_name) p1 of
               (Inl e, p2) \<Rightarrow> (Inl e, p2)
             | (Inr is_parallel, p2) \<Rightarrow> (Inr (\<not> is_parallel), p2)))"

section \<open>Class \<^verbatim>\<open>DirectoryLock\<close>\<close>

text \<open>
  The object has two members: \<^verbatim>\<open>fd_\<close>, initialised to \<open>-1\<close>, and
  \<^verbatim>\<open>dirname_\<close> (here \<open>lock_fd\<close> and \<open>lock_dirname\<close>: a name cannot end in
  an underscore). The instance is Unlocked when \<^verbatim>\<open>fd_\<close> is \<open>-1\<close> and Locked
  otherwise.
\<close>

record DirectoryLock =
  lock_fd :: int
    \<comment> \<open>the member \<^verbatim>\<open>fd_\<close>\<close>
  lock_dirname :: string
    \<comment> \<open>the member \<^verbatim>\<open>dirname_\<close>\<close>

definition sleep_seconds :: "'w os \<Rightarrow> nat \<Rightarrow> 'w proc \<Rightarrow> 'w proc" where
  \<comment> \<open>Modelled from the spec: \<^verbatim>\<open>Util::sleep_seconds\<close> of \<^verbatim>\<open>util.hpp\<close>, which is not
      among the sources; the spec says that the component sleeps for the fixed interval
      before it retries. The calling thread sleeps for the given number of seconds, during
      which the world moves on.\<close>
  "sleep_seconds os n p = emit (EvSleep n) (os_sleep os n (world p)) p"

text \<open>
  The \<^verbatim>\<open>while\<close> loop of \<^verbatim>\<open>LockDirectory\<close>. It has no bound: as long as
  \<^verbatim>\<open>flock\<close> does not return 0 it logs, sleeps for a minute and tries again. A run that
  never leaves the loop has the value \<open>None\<close>.
\<close>

partial_function (option) flock_loop :: "'w os \<Rightarrow> int \<Rightarrow> string \<Rightarrow> 'w proc \<Rightarrow> 'w proc option" where
  "flock_loop os dir_fd dirname p =
     (case sys_flock os dir_fd [LOCK_EX, LOCK_NB] p of
        (rc, p1) \<Rightarrow>
          if 0 \<noteq> rc then
            flock_loop os dir_fd dirname
              (sleep_seconds os (1 * 60)
                 (if os_EWOULDBLOCK os = os_errno os (world p1)
                  then cout (''Directory locked, waiting (retrying in 1 minute): '' @ dirname
                             @ endl) p1
                  else cerr (''Unable to lock directory (retrying in 1 minute): ''
                             @ ''. Error: '' @ strerror_errno os p1 @ endl) p1))
          else Some p1)"

definition LockDirectory :: "'w os \<Rightarrow> string \<Rightarrow> 'w proc \<Rightarrow> (int \<times> 'w proc) option" where
  "LockDirectory os dirname p =
     (case sys_open os (c_str dirname) [O_RDONLY, O_NOCTTY] p of
        (dir_fd, p1) \<Rightarrow>
          if dir_fd = -1 then
            Some (-1, cerr (''Unable to open directory for locking: '' @ dirname
                            @ ''. Error: '' @ strerror_errno os p1 @ endl) p1)
          else
            (case flock_loop os dir_fd dirname p1 of
               None \<Rightarrow> None
             | Some p2 \<Rightarrow> Some (dir_fd, p2)))"

definition UnlockDirectory :: "'w os \<Rightarrow> int \<Rightarrow> string \<Rightarrow> 'w proc \<Rightarrow> bool \<times> 'w proc" where
  "UnlockDirectory os dir_fd dirname p =
     (case sys_flock os dir_fd [LOCK_UN] p of
        (rc, p1) \<Rightarrow>
          if -1 = rc then
            (False, cerr (''Failed to unlock the directory: '' @ dirname
                          @ ''. Error: '' @ strerror_errno os p1 @ endl) p1)
          else
            (case sys_close os dir_fd p1 of
               (rc', p2) \<Rightarrow>
                 if -1 = rc' then
                   (False, cerr (''Failed to close the directory during unlocking: '' @ dirname
                                 @ ''. Error: '' @ strerror_errno os p2 @ endl) p2)
                 else (True, p2)))"

text \<open>
  Each member function returns its C++ result, the object after the call and the
  process after the call. \<^verbatim>\<open>Lock\<close> returns \<open>None\<close> when it never returns.
\<close>

definition Lock :: "'w os \<Rightarrow> DirectoryLock \<Rightarrow> 'w proc \<Rightarrow> (bool \<times> DirectoryLock \<times> 'w proc) option" where
  "Lock os this p =
     (if lock_fd this = -1 then
        (case LockDirectory os (lock_dirname this) p of
           None \<Rightarrow> None
         | Some (fd, p1) \<Rightarrow> Some (fd \<noteq> -1, this\<lparr>lock_fd := fd\<rparr>, p1))
      else Some (lock_fd this \<noteq> -1, this, p))"

definition Unlock :: "'w os \<Rightarrow> DirectoryLock \<Rightarrow> 'w proc \<Rightarrow> bool \<times> DirectoryLock \<times> 'w proc" where
  "Unlock os this p =
     (if lock_fd this = -1 then (False, this, p)
      else
        (case UnlockDirectory os (lock_fd this) (lock_dirname this) p of
           (ok, p1) \<Rightarrow>
             if \<not> ok then (False, this, p1)
             else (True, this\<lparr>lock_fd := -1\<rparr>, p1)))"

definition DirectoryLock_ctor ::
  "'w os \<Rightarrow> string \<Rightarrow> bool \<Rightarrow> 'w proc \<Rightarrow> (DirectoryLock \<times> 'w proc) option" where
  \<comment> \<open>the constructor; the value that \<^verbatim>\<open>Lock()\<close> returns is dropped\<close>
  "DirectoryLock_ctor os dirname lock p =
     (let this = \<lparr>lock_fd = -1, lock_dirname = dirname\<rparr> in
      if lock then
        (case Lock os this p of
           None \<Rightarrow> None
         | Some (_, this', p1) \<Rightarrow> Some (this', p1))
      else Some (this, p))"

definition DirectoryLock_dtor :: "'w os \<Rightarrow> DirectoryLock \<Rightarrow> 'w proc \<Rightarrow> DirectoryLock \<times> 'w proc" where
  \<comment> \<open>the destructor; the value that \<^verbatim>\<open>Unlock()\<close> returns is dropped. The members are
      returned as they are when the object dies.\<close>
  "DirectoryLock_dtor os this p = (case Unlock os this p of (_, this', p1) \<Rightarrow> (this', p1))"

section \<open>What the theorems speak about\<close>

subsection \<open>The resources an instance holds\<close>






subsection \<open>The life of an instance\<close>

text \<open>
  Between the calls on the instance the rest of the process may do anything:
  \<open>Elsewhere f evs\<close> moves the world by \<open>f\<close> and adds the events \<open>evs\<close> to the trace.
  The events of a call are those by which the trace has grown during the call.
\<close>

datatype 'w member = CallLock | CallUnlock | CallDtor | Elsewhere "'w \<Rightarrow> 'w" "event list"

definition delta :: "'w proc \<Rightarrow> 'w proc \<Rightarrow> event list" where
  "delta p p' = drop (length (trace p)) (trace p')"

fun call ::
  "'w os \<Rightarrow> 'w member \<Rightarrow> DirectoryLock \<times> 'w proc \<times> event list
     \<Rightarrow> (DirectoryLock \<times> 'w proc \<times> event list) option" where
  "call os CallLock (this, p, own) =
     (case Lock os this p of
        None \<Rightarrow> None
      | Some (_, this', p') \<Rightarrow> Some (this', p', own @ delta p p'))"
| "call os CallUnlock (this, p, own) =
     (case Unlock os this p of (_, this', p') \<Rightarrow> Some (this', p', own @ delta p p'))"
| "call os CallDtor (this, p, own) =
     (case DirectoryLock_dtor os this p of (this', p') \<Rightarrow> Some (this', p', own @ delta p p'))"
| "call os (Elsewhere f evs) (this, p, own) =
     Some (this, \<lparr>world = f (world p), trace = trace p @ evs\<rparr>, own)"

fun calls ::
  "'w os \<Rightarrow> 'w member list \<Rightarrow> DirectoryLock \<times> 'w proc \<times> event list
     \<Rightarrow> (DirectoryLock \<times> 'w proc \<times> event list) option" where
  "calls os [] s = Some s"
| "calls os (m # ms) s = (case call os m s of None \<Rightarrow> None | Some s' \<Rightarrow> calls os ms s')"

text \<open>
  A life is the constructor followed by any sequence of steps; its value is the instance,
  the process and the events of the instance's own calls after the last step, or \<open>None\<close>
  when one of the calls never returns.
\<close>

definition life ::
  "'w os \<Rightarrow> string \<Rightarrow> bool \<Rightarrow> 'w member list \<Rightarrow> 'w proc
     \<Rightarrow> (DirectoryLock \<times> 'w proc \<times> event list) option" where
  "life os dirname lock ms p0 =
     (case DirectoryLock_ctor os dirname lock p0 of
        None \<Rightarrow> None
      | Some (this, p) \<Rightarrow> calls os ms (this, p, delta p0 p))"





subsection \<open>A Linux host to run the code on\<close>

text \<open>
  One concrete operating system, laid out like a Linux machine with a solid-state disk
  \<^verbatim>\<open>sda\<close> (device 8:0) that carries the directory \<^verbatim>\<open>/mnt/plots\<close>, a rotational
  disk \<^verbatim>\<open>sdb\<close> that carries nothing, and a memory file system (device 0:38) mounted
  on \<^verbatim>\<open>/mnt/ram\<close>. In \<^verbatim>\<open>sysfs\<close> the entry \<^verbatim>\<open>/sys/dev/block/8:0\<close> is a symbolic
  link to the directory of \<^verbatim>\<open>sda\<close> under \<^verbatim>\<open>/sys/devices\<close>; the memory file system
  has no such entry. The rotational attribute of a disk is the file
  \<^verbatim>\<open>/sys/block/<name>/queue/rotational\<close>: it holds \<^verbatim>\<open>0\<close> and a newline for
  \<^verbatim>\<open>sda\<close>, \<^verbatim>\<open>1\<close> and a newline for \<^verbatim>\<open>sdb\<close>. No other path exists. Another
  process holds the advisory lock on \<^verbatim>\<open>/mnt/plots\<close> until the clock reaches
  \<open>host_busy_until\<close>; \<^verbatim>\<open>flock(fd, LOCK_UN)\<close> and \<^verbatim>\<open>close\<close> fail with \<^verbatim>\<open>EIO\<close>
  when the host is told to make them fail. \<^verbatim>\<open>major\<close> and \<^verbatim>\<open>minor\<close> are those of
  the GNU C library.
\<close>

record host =
  host_errno :: int
  host_clock :: nat
  host_busy_until :: nat
  host_unlock_fails :: bool
  host_close_fails :: bool

definition ENOENT :: int where "ENOENT = 2"
definition EIO :: int where "EIO = 5"
definition EAGAIN :: int where "EAGAIN = 11"

definition sda_path :: string where
  "sda_path = ''/sys/devices/pci0000:00/0000:00:1f.2/ata1/host0/target0:0:0/0:0:0:0/block/sda''"

definition linux_host :: "host os" where
  "linux_host =
     \<lparr>os_stat = (\<lambda>path w.
         if path = ''/mnt/plots'' then ((0, 0x800), w)
         else if path = ''/mnt/ram'' then ((0, 0x26), w)
         else ((-1, 0), w\<lparr>host_errno := ENOENT\<rparr>)),
      os_major = (\<lambda>dev. ucast ((drop_bit 8 dev AND 0xFFF) OR (drop_bit 32 dev AND NOT 0xFFF))),
      os_minor = (\<lambda>dev. ucast ((dev AND 0xFF) OR (drop_bit 12 dev AND NOT 0xFF))),
      os_realpath = (\<lambda>path w.
         if path = ''/sys/dev/block/8:0'' then (Some sda_path, w)
         else (None, w\<lparr>host_errno := ENOENT\<rparr>)),
      os_ifstream_open = (\<lambda>path w.
         if path = ''/sys/block/sda/queue/rotational'' then (Some [CHR ''0'', CHR 0x0A], w)
         else if path = ''/sys/block/sdb/queue/rotational'' then (Some [CHR ''1'', CHR 0x0A], w)
         else (None, w\<lparr>host_errno := ENOENT\<rparr>)),
      os_open = (\<lambda>path flags w. if path = ''/mnt/plots'' then (3, w)
                                  else (-1, w\<lparr>host_errno := ENOENT\<rparr>)),
      os_flock = (\<lambda>fd operation w.
         if operation = [LOCK_UN]
         then (if host_unlock_fails w then (-1, w\<lparr>host_errno := EIO\<rparr>) else (0, w))
         else (if host_clock w < host_busy_until w then (-1, w\<lparr>host_errno := EAGAIN\<rparr>)
               else (0, w))),
      os_close = (\<lambda>fd w. if host_close_fails w then (-1, w\<lparr>host_errno := EIO\<rparr>) else (0, w)),
      os_sleep = (\<lambda>n w. w\<lparr>host_clock := host_clock w + n\<rparr>),
      os_errno = host_errno,
      os_strerror = (\<lambda>e. if e = ENOENT then ''No such file or directory''
                          else if e = EIO then ''Input/output error''
                          else if e = EAGAIN then ''Resource temporarily unavailable''
                          else ''Unknown error''),
      os_EWOULDBLOCK = EAGAIN\<rparr>"

definition boot :: "nat \<Rightarrow> bool \<Rightarrow> bool \<Rightarrow> host proc" where
  \<comment> \<open>a process that starts at time 0 with an empty trace\<close>
  "boot busy_until unlock_fails close_fails =
     \<lparr>world = \<lparr>host_errno = 0, host_clock = 0, host_busy_until = busy_until,
                host_unlock_fails = unlock_fails, host_close_fails = close_fails\<rparr>,
      trace = []\<rparr>"






section \<open>Lemmas about the model\<close>

subsection \<open>Strings\<close>

lemma digit_char_digit: "d < 10 \<Longrightarrow> digit_char d \<in> set ''0123456789''"
  unfolding digit_char_def by (rule nth_mem) simp

lemma show_nat_digits: "set (show_nat n) \<subseteq> set ''0123456789''"
proof (induction n rule: show_nat.induct)
  case (1 n)
  show ?case
  proof (cases "n < 10")
    case True
    then show ?thesis using digit_char_digit [of n] by (subst show_nat.simps) simp
  next
    case False
    have "n mod 10 < 10" by simp
    then have "digit_char (n mod 10) \<in> set ''0123456789''" by (rule digit_char_digit)
    with False 1 show ?thesis by (subst show_nat.simps) simp
  qed
qed

lemma show_nat_no_NUL: "CHR 0x00 \<notin> set (show_nat n)"
  using show_nat_digits [of n] by auto

lemma c_str_id: "CHR 0x00 \<notin> set s \<Longrightarrow> c_str s = s"
  unfolding c_str_def by (induction s) auto

lemma c_str_no_NUL: "CHR 0x00 \<notin> set (c_str s)"
  unfolding c_str_def by (induction s) auto

lemma c_str_Cons: "c_str (c # s) = (if c = CHR 0x00 then [] else c # c_str s)"
  by (simp add: c_str_def)

lemma c_str_block:
  "c_str (''/sys/dev/block/'' @ show_nat a @ '':'' @ show_nat b)
     = ''/sys/dev/block/'' @ show_nat a @ '':'' @ show_nat b"
  by (rule c_str_id) (simp add: show_nat_no_NUL)

lemma c_str_filename:
  "CHR 0x00 \<notin> set dev \<Longrightarrow>
   c_str (''/sys/block/'' @ dev @ ''/queue/rotational'') = ''/sys/block/'' @ dev @ ''/queue/rotational''"
  by (rule c_str_id) simp

lemma DeviceNameOfDirectory_no_NUL:
  "DeviceNameOfDirectory os dir p = (Inr path, p1) \<Longrightarrow> CHR 0x00 \<notin> set path"
  by (auto simp: DeviceNameOfDirectory_def Let_def c_str_no_NUL
           split: prod.splits if_splits option.splits)

subsection \<open>Traces of \<^verbatim>\<open>Lock\<close> and \<^verbatim>\<open>Unlock\<close>\<close>






text \<open>
  When \<^verbatim>\<open>flock\<close> never returns 0 the loop never ends, whatever \<^verbatim>\<open>errno\<close> says:
  contention and every other failure of the lock call are retried alike.
\<close>

lemma flock_loop_never:
  assumes "\<forall>w. fst (os_flock os fd [LOCK_EX, LOCK_NB] w) \<noteq> 0"
  shows "flock_loop os fd d p = None"
proof -
  have "flock_loop os' fd' d' p = Some p' \<Longrightarrow>
        \<not> (\<forall>w. fst (os_flock os' fd' [LOCK_EX, LOCK_NB] w) \<noteq> 0)" for os' :: "'a os" and fd' d' p p'
  proof (induction os' fd' d' p p' rule: flock_loop.raw_induct [rotated 1, consumes 1])
    case (1 loop os fd d p p')
    show ?case
    proof
      assume a: "\<forall>w. fst (os_flock os fd [LOCK_EX, LOCK_NB] w) \<noteq> 0"
      obtain rc p1 where f: "sys_flock os fd [LOCK_EX, LOCK_NB] p = (rc, p1)"
        by (cases "sys_flock os fd [LOCK_EX, LOCK_NB] p")
      then have "rc = fst (os_flock os fd [LOCK_EX, LOCK_NB] (world p))"
        by (auto simp: sys_flock_def split: prod.splits)
      with a have "rc \<noteq> 0" by simp
      with 1(2) f obtain p2 where "loop os fd d p2 = Some p'" by simp
      with 1(1) a show False by blast
    qed
  qed
  with assms show ?thesis by (cases "flock_loop os fd d p") auto
qed














subsection \<open>Running the code on the host\<close>

lemma host_stat: "os_stat linux_host path w =
    (if path = ''/mnt/plots'' then ((0, 0x800), w)
     else if path = ''/mnt/ram'' then ((0, 0x26), w)
     else ((-1, 0), w\<lparr>host_errno := ENOENT\<rparr>))"
  by (simp add: linux_host_def)

lemma host_major: "unat (os_major linux_host 0x800) = 8"
  by (simp add: linux_host_def)

lemma host_minor: "unat (os_minor linux_host 0x800) = 0"
  by (simp add: linux_host_def)

lemma host_major_ram: "unat (os_major linux_host 0x26) = 0"
  by (simp add: linux_host_def)

lemma host_minor_ram: "unat (os_minor linux_host 0x26) = 38"
  by (simp add: linux_host_def)

lemma show_nat_38: "show_nat 38 = ''38''"
  by (simp add: show_nat.simps digit_char_def)

lemma host_realpath: "os_realpath linux_host path w =
    (if path = ''/sys/dev/block/8:0'' then (Some sda_path, w)
     else (None, w\<lparr>host_errno := ENOENT\<rparr>))"
  by (simp add: linux_host_def)

lemma host_ifstream_open: "os_ifstream_open linux_host path w =
    (if path = ''/sys/block/sda/queue/rotational'' then (Some [CHR ''0'', CHR 0x0A], w)
     else if path = ''/sys/block/sdb/queue/rotational'' then (Some [CHR ''1'', CHR 0x0A], w)
     else (None, w\<lparr>host_errno := ENOENT\<rparr>))"
  by (simp add: linux_host_def)

lemma host_open: "os_open linux_host path flags w =
    (if path = ''/mnt/plots'' then (3, w) else (-1, w\<lparr>host_errno := ENOENT\<rparr>))"
  by (simp add: linux_host_def)

lemma host_flock: "os_flock linux_host fd operation w =
    (if operation = [LOCK_UN]
     then (if host_unlock_fails w then (-1, w\<lparr>host_errno := EIO\<rparr>) else (0, w))
     else (if host_clock w < host_busy_until w then (-1, w\<lparr>host_errno := EAGAIN\<rparr>)
           else (0, w)))"
  by (simp add: linux_host_def)

lemma host_close: "os_close linux_host fd w =
    (if host_close_fails w then (-1, w\<lparr>host_errno := EIO\<rparr>) else (0, w))"
  by (simp add: linux_host_def)

lemma host_sleep: "os_sleep linux_host n w = w\<lparr>host_clock := host_clock w + n\<rparr>"
  by (simp add: linux_host_def)

lemma host_errno: "os_errno linux_host w = host_errno w"
  by (simp add: linux_host_def)

lemma host_strerror: "os_strerror linux_host e =
    (if e = ENOENT then ''No such file or directory''
     else if e = EIO then ''Input/output error''
     else if e = EAGAIN then ''Resource temporarily unavailable''
     else ''Unknown error'')"
  by (simp add: linux_host_def)

lemma host_EWOULDBLOCK: "os_EWOULDBLOCK linux_host = EAGAIN"
  by (simp add: linux_host_def)

lemmas host_simps = host_stat host_major host_minor host_major_ram host_minor_ram host_realpath host_ifstream_open host_open
  host_flock host_close host_sleep host_errno host_strerror host_EWOULDBLOCK
  ENOENT_def EIO_def EAGAIN_def boot_def

lemma show_nat_8: "show_nat 8 = ''8''"
  by (simp add: show_nat.simps digit_char_def)

lemma show_nat_0: "show_nat 0 = ''0''"
  by (simp add: show_nat.simps digit_char_def)

lemma c_str_plots: "c_str ''/mnt/plots'' = ''/mnt/plots''"
  by (simp add: c_str_def)

lemma c_str_none: "c_str ''/mnt/none'' = ''/mnt/none''"
  by (simp add: c_str_def)

lemma c_str_sda_path: "c_str sda_path = sda_path"
  by (simp add: c_str_def sda_path_def)

lemmas sys_defs = sys_stat_def sys_realpath_def sys_ifstream_open_def sys_open_def sys_flock_def
  sys_close_def emit_def cout_def cerr_def strerror_errno_def sleep_seconds_def

lemma host_DeviceNameOfDirectory:
  "DeviceNameOfDirectory linux_host ''/mnt/plots'' p
     = (Inr sda_path,
        \<lparr>world = world p,
         trace = trace p @ [EvStat ''/mnt/plots'' 0,
                            EvRealpath ''/sys/dev/block/8:0'' (Some sda_path)]\<rparr>)"
  by (simp add: DeviceNameOfDirectory_def sys_defs host_simps c_str_plots c_str_sda_path
        show_nat_8 show_nat_0 c_str_block [of 8 0, unfolded show_nat_8 show_nat_0, simplified])

lemmas lock_defs = Lock_def LockDirectory_def Unlock_def UnlockDirectory_def
  DirectoryLock_ctor_def DirectoryLock_dtor_def life_def flock_loop.simps endl_def


section \<open>Device resolution and classification\<close>

text \<open>
  C6. \<^verbatim>\<open>DeviceNameOfDirectory\<close> on a path that cannot be stat'ed throws an error that
  carries the text of the operating system's error; on a path that can, it returns the
  canonical path of \<^verbatim>\<open>/sys/dev/block/<major>:<minor>\<close> when \<^verbatim>\<open>realpath\<close> resolves
  it (an absolute path, so the result is not empty), and throws an error that carries the
  text of the operating system's error when \<^verbatim>\<open>realpath\<close> fails.
\<close>

theorem DeviceNameOfDirectory_results:
  "(os_stat os (c_str dir) (world p) = ((rc, st_dev), w) \<and> rc \<noteq> 0 \<longrightarrow>
      fst (DeviceNameOfDirectory os dir p)
        = Inl (runtime_error (''Unable to find device name for dir '' @ dir @ '': ''
                               @ os_strerror os (os_errno os w))))
   \<and> (os_stat os (c_str dir) (world p) = ((0, st_dev), w) \<and>
        os_realpath os (''/sys/dev/block/'' @ show_nat (unat (os_major os st_dev)) @ '':''
                          @ show_nat (unat (os_minor os st_dev))) w
          = (Some (CHR ''/'' # rest), w') \<longrightarrow>
      fst (DeviceNameOfDirectory os dir p) = Inr (CHR ''/'' # c_str rest)
      \<and> fst (DeviceNameOfDirectory os dir p) \<noteq> Inr [])
   \<and> (os_stat os (c_str dir) (world p) = ((0, st_dev), w) \<and>
        os_realpath os (''/sys/dev/block/'' @ show_nat (unat (os_major os st_dev)) @ '':''
                          @ show_nat (unat (os_minor os st_dev))) w
          = (None, w') \<longrightarrow>
      fst (DeviceNameOfDirectory os dir p)
        = Inl (runtime_error (''Unable to find device name for ''
                               @ (''/sys/dev/block/'' @ show_nat (unat (os_major os st_dev))
                                  @ '':'' @ show_nat (unat (os_minor os st_dev)))
                               @ '': '' @ os_strerror os (os_errno os w'))))"
  unfolding DeviceNameOfDirectory_def Let_def c_str_block
  by (simp add: sys_stat_def sys_realpath_def strerror_errno_def emit_def c_str_Cons)

theorem DeviceNameOfDirectory_results_witness:
  "os_stat linux_host (c_str ''/mnt/none'') (world (boot 0 False False))
       = ((-1, 0), (world (boot 0 False False))\<lparr>host_errno := ENOENT\<rparr>)
   \<and> fst (DeviceNameOfDirectory linux_host ''/mnt/none'' (boot 0 False False))
       = Inl (runtime_error
               ''Unable to find device name for dir /mnt/none: No such file or directory'')
   \<and> os_stat linux_host (c_str ''/mnt/plots'') (world (boot 0 False False))
       = ((0, 0x800), world (boot 0 False False))
   \<and> os_realpath linux_host ''/sys/dev/block/8:0'' (world (boot 0 False False))
       = (Some sda_path, world (boot 0 False False))
   \<and> fst (DeviceNameOfDirectory linux_host ''/mnt/plots'' (boot 0 False False)) = Inr sda_path
   \<and> os_stat linux_host (c_str ''/mnt/ram'') (world (boot 0 False False))
       = ((0, 0x26), world (boot 0 False False))
   \<and> os_realpath linux_host ''/sys/dev/block/0:38'' (world (boot 0 False False))
       = (None, (world (boot 0 False False))\<lparr>host_errno := ENOENT\<rparr>)
   \<and> fst (DeviceNameOfDirectory linux_host ''/mnt/ram'' (boot 0 False False))
       = Inl (runtime_error
               ''Unable to find device name for /sys/dev/block/0:38: No such file or directory'')"
proof -
  let ?w = "world (boot 0 False False)"
  have c: "c_str ''/mnt/ram'' = ''/mnt/ram''" by (simp add: c_str_def)
  have s: "sda_path = CHR ''/'' # tl sda_path" "c_str (tl sda_path) = tl sda_path"
    by (simp_all add: sda_path_def c_str_def)
  have a: "os_stat linux_host (c_str ''/mnt/none'') ?w = ((-1, 0), ?w\<lparr>host_errno := ENOENT\<rparr>)"
    by (simp add: host_stat c_str_none)
  have b1: "os_stat linux_host (c_str ''/mnt/plots'') ?w = ((0, 0x800), ?w)"
    by (simp add: host_stat c_str_plots)
  have b2: "os_realpath linux_host
              (''/sys/dev/block/'' @ show_nat (unat (os_major linux_host 0x800)) @ '':''
                 @ show_nat (unat (os_minor linux_host 0x800))) ?w
              = (Some (CHR ''/'' # tl sda_path), ?w)"
    using s(1) by (simp add: host_realpath host_major host_minor show_nat_8 show_nat_0)
  have c1: "os_stat linux_host (c_str ''/mnt/ram'') ?w = ((0, 0x26), ?w)"
    by (simp add: host_stat c)
  have c2: "os_realpath linux_host
              (''/sys/dev/block/'' @ show_nat (unat (os_major linux_host 0x26)) @ '':''
                 @ show_nat (unat (os_minor linux_host 0x26))) ?w
              = (None, ?w\<lparr>host_errno := ENOENT\<rparr>)"
    by (simp add: host_realpath host_major_ram host_minor_ram show_nat_38 show_nat_0)
  have A: "fst (DeviceNameOfDirectory linux_host ''/mnt/none'' (boot 0 False False))
             = Inl (runtime_error (''Unable to find device name for dir '' @ ''/mnt/none'' @ '': ''
                      @ os_strerror linux_host (os_errno linux_host (?w\<lparr>host_errno := ENOENT\<rparr>))))"
    using DeviceNameOfDirectory_results [of linux_host "''/mnt/none''" "boot 0 False False"
        "-1" 0 "?w\<lparr>host_errno := ENOENT\<rparr>"] a by simp
  have B: "fst (DeviceNameOfDirectory linux_host ''/mnt/plots'' (boot 0 False False))
             = Inr (CHR ''/'' # c_str (tl sda_path))"
    using DeviceNameOfDirectory_results [of linux_host "''/mnt/plots''" "boot 0 False False"
        _ "0x800" ?w "tl sda_path" ?w] b1 b2 by simp
  have C: "fst (DeviceNameOfDirectory linux_host ''/mnt/ram'' (boot 0 False False))
             = Inl (runtime_error (''Unable to find device name for ''
                      @ (''/sys/dev/block/'' @ show_nat (unat (os_major linux_host 0x26)) @ '':''
                          @ show_nat (unat (os_minor linux_host 0x26)))
                      @ '': '' @ os_strerror linux_host
                                   (os_errno linux_host (?w\<lparr>host_errno := ENOENT\<rparr>))))"
    using DeviceNameOfDirectory_results [of linux_host "''/mnt/ram''" "boot 0 False False"
        _ "0x26" ?w _ "?w\<lparr>host_errno := ENOENT\<rparr>"] c1 c2 by simp
  have b2': "os_realpath linux_host ''/sys/dev/block/8:0'' ?w = (Some sda_path, ?w)"
    by (simp add: host_realpath)
  have c2': "os_realpath linux_host ''/sys/dev/block/0:38'' ?w = (None, ?w\<lparr>host_errno := ENOENT\<rparr>)"
    by (simp add: host_realpath)
  have A': "fst (DeviceNameOfDirectory linux_host ''/mnt/none'' (boot 0 False False))
       = Inl (runtime_error
               ''Unable to find device name for dir /mnt/none: No such file or directory'')"
    using A by (simp add: host_errno host_strerror)
  have B': "fst (DeviceNameOfDirectory linux_host ''/mnt/plots'' (boot 0 False False)) = Inr sda_path"
    using B s by simp
  have C': "fst (DeviceNameOfDirectory linux_host ''/mnt/ram'' (boot 0 False False))
       = Inl (runtime_error
               ''Unable to find device name for /sys/dev/block/0:38: No such file or directory'')"
    using C by (simp add: host_errno host_strerror host_major_ram host_minor_ram show_nat_38 show_nat_0)
  from a A' b1 b2' B' c1 c2' C' show ?thesis by blast
qed

text \<open>
  C4. For every device name whose rotational attribute file opens, the classifier reads
  the first line and answers that parallel writing is preferred (the device is not
  rotational) exactly when that line is not empty and its first character is \<^verbatim>\<open>0\<close>;
  for every other first line it answers that the device is rotational.
\<close>

theorem classifier_first_line:
  assumes "os_ifstream_open os (c_str (''/sys/block/'' @ dev @ ''/queue/rotational'')) (world p)
             = (Some content, w)"
  shows "fst (IsParallelWritingPreferredForDevice os dev p)
           = Inr (getline content \<noteq> [] \<and> hd (getline content) = CHR ''0'')"
  using assms
  by (simp add: IsParallelWritingPreferredForDevice_def sys_ifstream_open_def Let_def)

theorem classifier_first_line_witness:
  "os_ifstream_open linux_host (c_str (''/sys/block/'' @ ''sda'' @ ''/queue/rotational''))
       (world (boot 0 False False)) = (Some [CHR ''0'', CHR 0x0A], world (boot 0 False False))
   \<and> fst (IsParallelWritingPreferredForDevice linux_host ''sda'' (boot 0 False False)) = Inr True
   \<and> os_ifstream_open linux_host (c_str (''/sys/block/'' @ ''sdb'' @ ''/queue/rotational''))
       (world (boot 0 False False)) = (Some [CHR ''1'', CHR 0x0A], world (boot 0 False False))
   \<and> fst (IsParallelWritingPreferredForDevice linux_host ''sdb'' (boot 0 False False)) = Inr False"
proof -
  have a: "os_ifstream_open linux_host (c_str (''/sys/block/'' @ ''sda'' @ ''/queue/rotational''))
       (world (boot 0 False False)) = (Some [CHR ''0'', CHR 0x0A], world (boot 0 False False))"
    by (simp add: host_ifstream_open c_str_def)
  have b: "os_ifstream_open linux_host (c_str (''/sys/block/'' @ ''sdb'' @ ''/queue/rotational''))
       (world (boot 0 False False)) = (Some [CHR ''1'', CHR 0x0A], world (boot 0 False False))"
    by (simp add: host_ifstream_open c_str_def)
  from classifier_first_line [OF a] classifier_first_line [OF b] a b show ?thesis
    by (simp add: getline_def)
qed

text \<open>
  C5. For every device name whose rotational attribute file cannot be opened, the
  classifier throws an error whose message names the file and carries the text of the
  operating system's error; it returns neither answer.
\<close>

theorem classifier_open_failure:
  assumes "os_ifstream_open os (c_str (''/sys/block/'' @ dev @ ''/queue/rotational'')) (world p)
             = (None, w)"
  shows "fst (IsParallelWritingPreferredForDevice os dev p)
           = Inl (runtime_error (''Unable to open '' @ (''/sys/block/'' @ dev @ ''/queue/rotational'')
                   @ '' for reading: '' @ os_strerror os (os_errno os w)))
         \<and> fst (IsParallelWritingPreferredForDevice os dev p) \<noteq> Inr True
         \<and> fst (IsParallelWritingPreferredForDevice os dev p) \<noteq> Inr False"
  using assms
  by (simp add: IsParallelWritingPreferredForDevice_def sys_ifstream_open_def Let_def
        strerror_errno_def emit_def)

theorem classifier_open_failure_witness:
  "os_ifstream_open linux_host (c_str (''/sys/block/'' @ ''sdc'' @ ''/queue/rotational''))
       (world (boot 0 False False)) = (None, (world (boot 0 False False))\<lparr>host_errno := ENOENT\<rparr>)
   \<and> fst (IsParallelWritingPreferredForDevice linux_host ''sdc'' (boot 0 False False))
       = Inl (runtime_error
               ''Unable to open /sys/block/sdc/queue/rotational for reading: No such file or directory'')"
proof -
  have a: "os_ifstream_open linux_host (c_str (''/sys/block/'' @ ''sdc'' @ ''/queue/rotational''))
       (world (boot 0 False False)) = (None, (world (boot 0 False False))\<lparr>host_errno := ENOENT\<rparr>)"
    by (simp add: host_ifstream_open c_str_def)
  from classifier_open_failure [OF a] a show ?thesis
    by (simp add: host_simps)
qed

text \<open>
  C3. On Linux, when \<^verbatim>\<open>DeviceNameOfDirectory\<close> returns a path, the next and last thing
  \<^verbatim>\<open>ShouldLock\<close> does is to open the file whose name is \<^verbatim>\<open>/sys/block/\<close>, followed
  by that whole path, followed by \<^verbatim>\<open>/queue/rotational\<close>; the path is passed on as it
  is, not cut down to the name of the device.
\<close>

theorem ShouldLock_opens_full_path:
  assumes "DeviceNameOfDirectory os dir p = (Inr path, p1)"
  shows "trace (snd (ShouldLock Linux os dir p))
           = trace p1 @ [EvIfstreamOpen (''/sys/block/'' @ path @ ''/queue/rotational'')
                           (fst (os_ifstream_open os
                                  (''/sys/block/'' @ path @ ''/queue/rotational'') (world p1))
                            \<noteq> None)]"
proof -
  have nn: "CHR 0x00 \<notin> set path" using assms by (rule DeviceNameOfDirectory_no_NUL)
  then have "c_str path = path" by (rule c_str_id)
  moreover have "c_str (''/sys/block/'' @ path @ ''/queue/rotational'')
                   = ''/sys/block/'' @ path @ ''/queue/rotational''"
    using nn by (rule c_str_filename)
  ultimately show ?thesis using assms
    by (simp add: ShouldLock_def IsParallelWritingPreferredForDevice_def Let_def
          sys_ifstream_open_def emit_def split: prod.splits option.splits)
qed

theorem ShouldLock_opens_full_path_witness:
  "fst (DeviceNameOfDirectory linux_host ''/mnt/plots'' (boot 0 False False)) = Inr sda_path
   \<and> trace (snd (ShouldLock Linux linux_host ''/mnt/plots'' (boot 0 False False)))
       = [EvStat ''/mnt/plots'' 0,
          EvRealpath ''/sys/dev/block/8:0'' (Some sda_path),
          EvIfstreamOpen (''/sys/block/'' @ sda_path @ ''/queue/rotational'') False]"
  using ShouldLock_opens_full_path [OF host_DeviceNameOfDirectory [of "boot 0 False False"]]
  by (simp add: host_DeviceNameOfDirectory host_simps sda_path_def)

text \<open>
  C2. On Linux, for a directory whose device is resolved, \<^verbatim>\<open>ShouldLock\<close> is to return
  \<open>false\<close> when the rotational attribute file of the backing device starts with
  \<^verbatim>\<open>0\<close> and \<open>true\<close> otherwise. On the host above \<^verbatim>\<open>/mnt/plots\<close> lies on the
  solid-state disk \<^verbatim>\<open>sda\<close>, whose attribute file \<^verbatim>\<open>/sys/block/sda/queue/rotational\<close>
  starts with \<^verbatim>\<open>0\<close>, and the device is resolved; yet \<^verbatim>\<open>ShouldLock\<close> does not return
  \<open>false\<close>: it throws, because it asks for a file named after the whole resolved path.
\<close>

theorem ShouldLock_throws_on_sysfs:
  "fst (os_ifstream_open linux_host ''/sys/block/sda/queue/rotational'' (world (boot 0 False False)))
     = Some [CHR ''0'', CHR 0x0A]
   \<and> fst (DeviceNameOfDirectory linux_host ''/mnt/plots'' (boot 0 False False)) = Inr sda_path
   \<and> fst (ShouldLock Linux linux_host ''/mnt/plots'' (boot 0 False False))
       = Inl (runtime_error (''Unable to open /sys/block/'' @ sda_path
                              @ ''/queue/rotational for reading: No such file or directory''))"
  by (simp add: ShouldLock_def host_DeviceNameOfDirectory IsParallelWritingPreferredForDevice_def
        Let_def sys_defs host_simps sda_path_def c_str_def)

text \<open>
  What \<^verbatim>\<open>ShouldLock\<close> computes when the file it asks for does exist: the negation of
  the classifier's answer on the first line of that file.
\<close>

lemma ShouldLock_classifies:
  assumes "DeviceNameOfDirectory os dir p = (Inr path, p1)"
    and "os_ifstream_open os (''/sys/block/'' @ path @ ''/queue/rotational'') (world p1)
           = (Some content, w)"
  shows "fst (ShouldLock Linux os dir p)
           = Inr (\<not> (getline content \<noteq> [] \<and> hd (getline content) = CHR ''0''))"
proof -
  have nn: "CHR 0x00 \<notin> set path" using assms(1) by (rule DeviceNameOfDirectory_no_NUL)
  then have "c_str path = path" by (rule c_str_id)
  moreover have "c_str (''/sys/block/'' @ path @ ''/queue/rotational'')
                   = ''/sys/block/'' @ path @ ''/queue/rotational''"
    using nn by (rule c_str_filename)
  ultimately show ?thesis using assms
    by (simp add: ShouldLock_def IsParallelWritingPreferredForDevice_def Let_def
          sys_ifstream_open_def emit_def split: prod.splits option.splits)
qed

section \<open>The directory lock\<close>

text \<open>
  C7. For every instance in the Locked state, \<^verbatim>\<open>Lock()\<close> returns \<open>true\<close>, leaves the
  instance as it is and makes no system call at all (the process and its trace are
  unchanged); so calling it twice in a row returns \<open>true\<close> both times.
\<close>

theorem Lock_when_locked:
  assumes "lock_fd this \<noteq> -1"
  shows "Lock os this p = Some (True, this, p)
         \<and> (case Lock os this p of
               None \<Rightarrow> None
             | Some (b, this', p') \<Rightarrow> Lock os this' p') = Some (True, this, p)"
  using assms by (simp add: Lock_def)

theorem Lock_when_locked_witness:
  "lock_fd \<lparr>lock_fd = 3, lock_dirname = ''/mnt/plots''\<rparr> \<noteq> -1
   \<and> Lock linux_host \<lparr>lock_fd = 3, lock_dirname = ''/mnt/plots''\<rparr> (boot 0 False False)
       = Some (True, \<lparr>lock_fd = 3, lock_dirname = ''/mnt/plots''\<rparr>, boot 0 False False)"
proof -
  have h: "lock_fd \<lparr>lock_fd = 3, lock_dirname = ''/mnt/plots''\<rparr> \<noteq> -1" by simp
  from Lock_when_locked [OF h, of linux_host "boot 0 False False"] h show ?thesis by simp
qed

text \<open>
  C8. For every instance in the Unlocked state, \<^verbatim>\<open>Unlock()\<close> returns \<open>false\<close>
  and changes nothing; so an \<^verbatim>\<open>Unlock()\<close> that follows an \<^verbatim>\<open>Unlock()\<close> which
  returned \<open>true\<close> returns \<open>false\<close>.
\<close>

theorem Unlock_when_unlocked:
  "(lock_fd this = -1 \<longrightarrow> Unlock os this p = (False, this, p))
   \<and> (Unlock os this p = (True, this', p') \<longrightarrow> Unlock os this' p' = (False, this', p'))"
  by (auto simp: Unlock_def split: if_splits prod.splits)

theorem Unlock_when_unlocked_witness:
  "lock_fd \<lparr>lock_fd = -1, lock_dirname = ''/mnt/plots''\<rparr> = -1
   \<and> Unlock linux_host \<lparr>lock_fd = -1, lock_dirname = ''/mnt/plots''\<rparr> (boot 0 False False)
       = (False, \<lparr>lock_fd = -1, lock_dirname = ''/mnt/plots''\<rparr>, boot 0 False False)
   \<and> Unlock linux_host \<lparr>lock_fd = 3, lock_dirname = ''/mnt/plots''\<rparr> (boot 0 False False)
       = (True, \<lparr>lock_fd = -1, lock_dirname = ''/mnt/plots''\<rparr>,
          \<lparr>world = world (boot 0 False False),
           trace = [EvFlock 3 [LOCK_UN] 0, EvClose 3 0]\<rparr>)
   \<and> Unlock linux_host \<lparr>lock_fd = -1, lock_dirname = ''/mnt/plots''\<rparr>
         \<lparr>world = world (boot 0 False False), trace = [EvFlock 3 [LOCK_UN] 0, EvClose 3 0]\<rparr>
       = (False, \<lparr>lock_fd = -1, lock_dirname = ''/mnt/plots''\<rparr>,
          \<lparr>world = world (boot 0 False False),
           trace = [EvFlock 3 [LOCK_UN] 0, EvClose 3 0]\<rparr>)"
proof -
  let ?u = "\<lparr>lock_fd = -1, lock_dirname = ''/mnt/plots''\<rparr>"
  let ?l = "\<lparr>lock_fd = 3, lock_dirname = ''/mnt/plots''\<rparr>"
  let ?p' = "\<lparr>world = world (boot 0 False False), trace = [EvFlock 3 [LOCK_UN] 0, EvClose 3 0]\<rparr>"
  have h1: "lock_fd ?u = -1" by simp
  have h2: "Unlock linux_host ?l (boot 0 False False) = (True, ?u, ?p')"
    by (simp add: lock_defs sys_defs host_simps)
  from Unlock_when_unlocked [of ?u linux_host "boot 0 False False"] h1
  have c1: "Unlock linux_host ?u (boot 0 False False) = (False, ?u, boot 0 False False)" by blast
  from Unlock_when_unlocked [of ?l linux_host "boot 0 False False" ?u ?p'] h2
  have c2: "Unlock linux_host ?u ?p' = (False, ?u, ?p')" by blast
  from h1 c1 h2 c2 show ?thesis by blast
qed

text \<open>
  C9. For every instance in the Locked state: when \<^verbatim>\<open>flock(fd, LOCK_UN)\<close> or
  \<^verbatim>\<open>close(fd)\<close> fails during \<^verbatim>\<open>Unlock()\<close>, \<^verbatim>\<open>Unlock()\<close> returns \<open>false\<close>
  and the instance is unchanged, still holding the same descriptor; \<^verbatim>\<open>Unlock()\<close>
  returns \<open>true\<close>, with the instance Unlocked, exactly when both calls succeed.
\<close>

theorem Unlock_failure_keeps_state:
  assumes "lock_fd this \<noteq> -1"
    and "os_flock os (lock_fd this) [LOCK_UN] (world p) = (rc_unlock, w1)"
    and "os_close os (lock_fd this) w1 = (rc_close, w2)"
  shows "(rc_unlock = -1 \<or> rc_close = -1 \<longrightarrow>
            fst (Unlock os this p) = False \<and> fst (snd (Unlock os this p)) = this)
       \<and> (rc_unlock \<noteq> -1 \<and> rc_close \<noteq> -1 \<longrightarrow>
            fst (Unlock os this p) = True \<and> fst (snd (Unlock os this p)) = this\<lparr>lock_fd := -1\<rparr>)
       \<and> (fst (Unlock os this p) = True \<longleftrightarrow> rc_unlock \<noteq> -1 \<and> rc_close \<noteq> -1)"
  using assms
  by (auto simp: Unlock_def UnlockDirectory_def sys_flock_def sys_close_def emit_def cerr_def
           split: prod.splits if_splits)

theorem Unlock_failure_keeps_state_witness:
  "lock_fd \<lparr>lock_fd = 3, lock_dirname = ''/mnt/plots''\<rparr> \<noteq> -1
   \<and> fst (os_flock linux_host 3 [LOCK_UN] (world (boot 0 True False))) = -1
   \<and> Unlock linux_host \<lparr>lock_fd = 3, lock_dirname = ''/mnt/plots''\<rparr> (boot 0 True False)
       = (False, \<lparr>lock_fd = 3, lock_dirname = ''/mnt/plots''\<rparr>,
          \<lparr>world = (world (boot 0 True False))\<lparr>host_errno := EIO\<rparr>,
           trace = [EvFlock 3 [LOCK_UN] (-1),
                    EvCerr (''Failed to unlock the directory: /mnt/plots''
                            @ ''. Error: Input/output error'' @ endl)]\<rparr>)
   \<and> fst (os_flock linux_host 3 [LOCK_UN] (world (boot 0 False True))) = 0
   \<and> fst (os_close linux_host 3 (world (boot 0 False True))) = -1
   \<and> Unlock linux_host \<lparr>lock_fd = 3, lock_dirname = ''/mnt/plots''\<rparr> (boot 0 False True)
       = (False, \<lparr>lock_fd = 3, lock_dirname = ''/mnt/plots''\<rparr>,
          \<lparr>world = (world (boot 0 False True))\<lparr>host_errno := EIO\<rparr>,
           trace = [EvFlock 3 [LOCK_UN] 0, EvClose 3 (-1),
                    EvCerr (''Failed to close the directory during unlocking: /mnt/plots''
                            @ ''. Error: Input/output error'' @ endl)]\<rparr>)
   \<and> fst (os_flock linux_host 3 [LOCK_UN] (world (boot 0 False False))) = 0
   \<and> fst (os_close linux_host 3 (world (boot 0 False False))) = 0
   \<and> Unlock linux_host \<lparr>lock_fd = 3, lock_dirname = ''/mnt/plots''\<rparr> (boot 0 False False)
       = (True, \<lparr>lock_fd = -1, lock_dirname = ''/mnt/plots''\<rparr>,
          \<lparr>world = world (boot 0 False False),
           trace = [EvFlock 3 [LOCK_UN] 0, EvClose 3 0]\<rparr>)"
proof -
  let ?l = "\<lparr>lock_fd = 3, lock_dirname = ''/mnt/plots''\<rparr>"
  have h: "lock_fd ?l \<noteq> -1" by simp
  let ?w1 = "world (boot 0 True False)"
  have a1: "os_flock linux_host (lock_fd ?l) [LOCK_UN] ?w1 = (-1, ?w1\<lparr>host_errno := EIO\<rparr>)"
    by (simp add: host_simps)
  have a2: "os_close linux_host (lock_fd ?l) (?w1\<lparr>host_errno := EIO\<rparr>) = (0, ?w1\<lparr>host_errno := EIO\<rparr>)"
    by (simp add: host_simps)
  let ?w2 = "world (boot 0 False True)"
  have b1: "os_flock linux_host (lock_fd ?l) [LOCK_UN] ?w2 = (0, ?w2)"
    by (simp add: host_simps)
  have b2: "os_close linux_host (lock_fd ?l) ?w2 = (-1, ?w2\<lparr>host_errno := EIO\<rparr>)"
    by (simp add: host_simps)
  let ?w3 = "world (boot 0 False False)"
  have c1: "os_flock linux_host (lock_fd ?l) [LOCK_UN] ?w3 = (0, ?w3)"
    by (simp add: host_simps)
  have c2: "os_close linux_host (lock_fd ?l) ?w3 = (0, ?w3)"
    by (simp add: host_simps)
  from Unlock_failure_keeps_state [OF h a1 a2]
  have A: "fst (Unlock linux_host ?l (boot 0 True False)) = False" by simp
  from Unlock_failure_keeps_state [OF h b1 b2]
  have B: "fst (Unlock linux_host ?l (boot 0 False True)) = False" by simp
  from Unlock_failure_keeps_state [OF h c1 c2]
  have C: "fst (Unlock linux_host ?l (boot 0 False False)) = True" by simp
  from A B C show ?thesis
    by (simp add: lock_defs sys_defs host_simps)
qed

text \<open>
  C1, as the code has it. For every instance in the Unlocked state, when the
  \<^verbatim>\<open>open\<close> of the directory fails during \<^verbatim>\<open>Lock()\<close>, the error is written to
  \<^verbatim>\<open>std::cerr\<close> and \<^verbatim>\<open>Lock()\<close> returns \<open>false\<close> at once: the instance is still
  Unlocked, the process has made the one \<^verbatim>\<open>open\<close> call and written the one line, and
  it has neither slept nor tried again.
\<close>

theorem Lock_open_failure_returns_false:
  assumes "lock_fd this = -1"
    and "os_open os (c_str (lock_dirname this)) [O_RDONLY, O_NOCTTY] (world p) = (-1, w)"
  shows "Lock os this p
           = Some (False, this,
                   \<lparr>world = w,
                    trace = trace p @
                      [EvOpen (c_str (lock_dirname this)) [O_RDONLY, O_NOCTTY] (-1),
                       EvCerr (''Unable to open directory for locking: '' @ lock_dirname this
                               @ ''. Error: '' @ os_strerror os (os_errno os w) @ endl)]\<rparr>)"
  using assms
  by (simp add: Lock_def LockDirectory_def sys_open_def emit_def cerr_def strerror_errno_def)

theorem Lock_open_failure_returns_false_witness:
  "lock_fd \<lparr>lock_fd = -1, lock_dirname = ''/mnt/none''\<rparr> = -1
   \<and> os_open linux_host (c_str ''/mnt/none'') [O_RDONLY, O_NOCTTY] (world (boot 0 False False))
       = (-1, (world (boot 0 False False))\<lparr>host_errno := ENOENT\<rparr>)
   \<and> Lock linux_host \<lparr>lock_fd = -1, lock_dirname = ''/mnt/none''\<rparr> (boot 0 False False)
       = Some (False, \<lparr>lock_fd = -1, lock_dirname = ''/mnt/none''\<rparr>,
               \<lparr>world = (world (boot 0 False False))\<lparr>host_errno := ENOENT\<rparr>,
                trace = [EvOpen ''/mnt/none'' [O_RDONLY, O_NOCTTY] (-1),
                         EvCerr (''Unable to open directory for locking: /mnt/none''
                                 @ ''. Error: No such file or directory'' @ endl)]\<rparr>)"
proof -
  let ?x = "\<lparr>lock_fd = -1, lock_dirname = ''/mnt/none''\<rparr>"
  let ?w = "(world (boot 0 False False))\<lparr>host_errno := ENOENT\<rparr>"
  have h1: "lock_fd ?x = -1" by simp
  have h2: "os_open linux_host (c_str (lock_dirname ?x)) [O_RDONLY, O_NOCTTY]
              (world (boot 0 False False)) = (-1, ?w)"
    by (simp add: host_open c_str_none)
  from Lock_open_failure_returns_false [OF h1 h2] h2 show ?thesis
    by (simp add: host_simps c_str_none)
qed

text \<open>
  The statement that \<^verbatim>\<open>Lock()\<close> never returns with the instance still Unlocked after
  a failed \<^verbatim>\<open>open\<close> is false: on the host above, locking a directory that does not exist
  returns \<open>false\<close> straight away and leaves the instance Unlocked.
\<close>

theorem Lock_open_failure_counterexample:
  "lock_fd \<lparr>lock_fd = -1, lock_dirname = ''/mnt/none''\<rparr> = -1
   \<and> fst (os_open linux_host (c_str ''/mnt/none'') [O_RDONLY, O_NOCTTY] (world (boot 0 False False)))
       = -1
   \<and> Lock linux_host \<lparr>lock_fd = -1, lock_dirname = ''/mnt/none''\<rparr> (boot 0 False False)
       = Some (False, \<lparr>lock_fd = -1, lock_dirname = ''/mnt/none''\<rparr>,
               \<lparr>world = (world (boot 0 False False))\<lparr>host_errno := ENOENT\<rparr>,
                trace = [EvOpen ''/mnt/none'' [O_RDONLY, O_NOCTTY] (-1),
                         EvCerr (''Unable to open directory for locking: /mnt/none''
                                 @ ''. Error: No such file or directory'' @ endl)]\<rparr>)"
  by (simp add: lock_defs sys_defs host_simps c_str_none)




end
